theory Spec2Isabelle
  imports Main
begin

section \<open>Data model of state.go\<close>

text \<open>
  Go's \<open>error\<close> values. \<open>findAction\<close> builds two of them with \<open>fmt.Errorf\<close>; every other
  error of the file is handed over unchanged from a library (\<open>node.GetInteger\<close>,
  \<open>CallPost\<close>, \<open>regexp.Compile\<close>) and is kept with its message.
\<close>

datatype error =
    UnknownTarget string
  | UnknownTransition string string
  | Foreign string

text \<open>The apostrophe that the format strings put around \<open>%s\<close> and \<open>%v\<close>.\<close>

definition quoted :: "string \<Rightarrow> string" where
  "quoted s = [CHR 0x27] @ s @ [CHR 0x27]"

fun Error :: "error \<Rightarrow> string" where
  "Error (UnknownTarget target) =
     ''Could not find transition to target state '' @ quoted target"
| "Error (UnknownTransition current target) =
     ''Could not find transition from current state '' @ quoted current
       @ '' to target state '' @ quoted target"
| "Error (Foreign msg) = msg"

text \<open>How \<open>fmt\<close> prints a \<open>[]string\<close> under \<open>%v\<close> and \<open>%s\<close>: \<open>[a b c]\<close>.\<close>

fun spaced :: "string list \<Rightarrow> string" where
  "spaced [] = []"
| "spaced [x] = x"
| "spaced (x # y # ys) = x @ '' '' @ spaced (y # ys)"

definition fmt_strings :: "string list \<Rightarrow> string" where
  "fmt_strings xs = ''['' @ spaced xs @ '']''"

text \<open>
  A request to the MAAS service: the sub-object path below the client
  (\<open>GetSubObject\<close>), the operation of \<open>CallPost\<close> and its \<open>url.Values\<close>.
\<close>

record request =
  path :: "string list"
  operation :: string
  params :: "(string \<times> string list) list"

text \<open>
  The client answers a \<open>CallPost\<close> with an error or with \<open>nil\<close>; the JSON it returns
  is dropped by every caller (\<open>_, err := ...\<close>).
\<close>

type_synonym client = "request \<Rightarrow> error option"

text \<open>What a run leaves behind: lines given to \<open>log.Printf\<close> and calls made to the service.\<close>

datatype event = Printf string | CallPost request

text \<open>
  \<open>MaasNode\<close> is declared outside state.go; the file uses its accessors \<open>Hostname()\<close>,
  \<open>Zone()\<close>, \<open>ID()\<close> and \<open>GetInteger("substatus")\<close>, the last of which can fail.
\<close>

record MaasNode =
  Hostname :: string
  Zone :: string
  ID :: string
  substatus :: "error + int"

record Patterns =
  Include :: "string list"
  Exclude :: "string list"

record FilterOptions =
  Zones :: Patterns
  Hosts :: Patterns

record ProcessingOptions =
  Filter :: FilterOptions
  Verbose :: bool
  Preview :: bool

text \<open>
  \<open>type Action func(*maas.MAASObject, MaasNode, ProcessingOptions) error\<close>: the returned
  error together with the events of the call, in order.
\<close>

type_synonym Action = "client \<Rightarrow> MaasNode \<Rightarrow> ProcessingOptions \<Rightarrow> error option \<times> event list"

section \<open>The actions\<close>

definition Done :: Action where
  "Done client node options = (None, [Printf (''COMPLETE: '' @ Hostname node)])"

definition Deploy :: Action where
  "Deploy client node options =
     (if \<not> Preview options then
        (let req = \<lparr>path = [''nodes'', ID node], operation = ''start'', params = []\<rparr> in
         case client req of
           Some err \<Rightarrow> (Some err, [Printf (''DEPLOY: '' @ Hostname node), CallPost req])
         | None \<Rightarrow> (None, [Printf (''DEPLOY: '' @ Hostname node), CallPost req]))
      else (None, [Printf (''DEPLOY: '' @ Hostname node)]))"

definition Aquire :: Action where
  "Aquire client node options =
     (if \<not> Preview options then
        (let req = \<lparr>path = [''nodes''], operation = ''acquire'',
                    params = [(''name'', [Hostname node])]\<rparr> in
         case client req of
           Some err \<Rightarrow> (Some err, [Printf (''AQUIRE: '' @ Hostname node), CallPost req])
         | None \<Rightarrow> (None, [Printf (''AQUIRE: '' @ Hostname node), CallPost req]))
      else (None, [Printf (''AQUIRE: '' @ Hostname node)]))"

definition Commission :: Action where
  "Commission client node options =
     (if \<not> Preview options then
        (let req = \<lparr>path = [''nodes'', ID node], operation = ''commission'', params = []\<rparr> in
         case client req of
           Some err \<Rightarrow> (Some err, [Printf (''COMISSION: '' @ Hostname node), CallPost req])
         | None \<Rightarrow> (None, [Printf (''COMISSION: '' @ Hostname node), CallPost req]))
      else (None, [Printf (''COMISSION: '' @ Hostname node)]))"

definition Wait :: Action where
  "Wait client node options = (None, [Printf (''WAIT: '' @ Hostname node)])"

definition Fail :: Action where
  "Fail client node options = (None, [Printf (''FAIL: '' @ Hostname node)])"

definition AdminState :: Action where
  "AdminState client node options = (None, [Printf (''ADMIN: '' @ Hostname node)])"

section \<open>The transition table\<close>

text \<open>
  \<open>Transitions\<close> is a package-level variable of type \<open>map[string]map[string]Action\<close>.
  The functions that read it take its current value as their first argument;
  \<open>Transitions\<close> below is the value the declaration gives it.
\<close>

type_synonym table = "string \<rightharpoonup> (string \<rightharpoonup> Action)"

definition Deployed_row :: "(string \<times> Action) list" where
  "Deployed_row =
     [(''New'', Commission),
      (''Deployed'', Done),
      (''Ready'', Aquire),
      (''Allocated'', Deploy),
      (''Retired'', AdminState),
      (''Reserved'', AdminState),
      (''Releasing'', Wait),
      (''DiskErasing'', Wait),
      (''Deploying'', Wait),
      (''Commissioning'', Wait),
      (''Missing'', Fail),
      (''FailedReleasing'', Fail),
      (''FailedDiskErasing'', Fail),
      (''FailedDeployment'', Fail),
      (''Broken'', Fail),
      (''FailedCommissioning'', Fail)]"

definition Transitions :: table where
  "Transitions = map_of [(''Deployed'', map_of Deployed_row)]"

text \<open>
  The constant \<open>defaultStateMachine\<close> is a text of lines \<open>(A)->(B)\<close>; nothing in the file
  parses it. It is kept as the list of its edges, line by line.
\<close>

definition defaultStateMachine :: "(string \<times> string) list" where
  "defaultStateMachine =
     [(''New'', ''Commissioning''),
      (''Commissioning'', ''FailedCommissioning''),
      (''FailedCommissioning'', ''New''),
      (''Commissioning'', ''Ready''),
      (''Ready'', ''Deploying''),
      (''Ready'', ''Allocated''),
      (''Allocated'', ''Deploying''),
      (''Deploying'', ''Deployed''),
      (''Deploying'', ''FailedDeployment''),
      (''FailedDeployment'', ''Broken''),
      (''Deployed'', ''Releasing''),
      (''Releasing'', ''FailedReleasing''),
      (''FailedReleasing'', ''Broken''),
      (''Releasing'', ''DiskErasing''),
      (''DiskErasing'', ''FailedEraseDisk''),
      (''FailedEraseDisk'', ''Broken''),
      (''Releasing'', ''Ready''),
      (''DiskErasing'', ''Ready''),
      (''Broken'', ''Ready'')]"

text \<open>A walk along the edges of a graph, from its first state to its last.\<close>

fun walk :: "(string \<times> string) list \<Rightarrow> string list \<Rightarrow> bool" where
  "walk g [] = False"
| "walk g [s] = True"
| "walk g (s # t # rest) = ((s, t) \<in> set g \<and> walk g (t # rest))"

section \<open>Resolution\<close>

definition findAction :: "table \<Rightarrow> string \<Rightarrow> string \<Rightarrow> (error + Action) \<times> event list" where
  "findAction transitions target current =
     (case transitions target of
        None \<Rightarrow>
          (Inl (UnknownTarget target),
           [Printf (''[warn] unable to find transitions to target state '' @ quoted target)])
      | Some targets \<Rightarrow>
          (case targets current of
             None \<Rightarrow>
               (Inl (UnknownTransition current target),
                [Printf (''[warn] unable to find transition from current state ''
                          @ quoted current @ '' to target state '' @ quoted target)])
           | Some action \<Rightarrow> (Inr action, [])))"

section \<open>The dispatcher\<close>

text \<open>
  What one call of \<open>ProcessNode\<close> leaves: the error it returns, the events that happened
  before it returned, and the goroutines it started with \<open>go\<close>. A goroutine is kept as
  what the started call does when it runs (its own error and events); nothing joins it.
\<close>

type_synonym task = "error option \<times> event list"

record dispatch =
  ret :: "error option"
  inline :: "event list"
  spawned :: "task list"

text \<open>
  \<open>MaasNodeStatus(substatus).String()\<close> is declared outside state.go: the naming of the
  integer status is the parameter \<open>statusString\<close>.
\<close>

definition ProcessNode ::
  "table \<Rightarrow> (int \<Rightarrow> string) \<Rightarrow> client \<Rightarrow> MaasNode \<Rightarrow> ProcessingOptions \<Rightarrow> dispatch" where
  "ProcessNode transitions statusString client node options =
     (case substatus node of
        Inl err \<Rightarrow> \<lparr>ret = Some err, inline = [], spawned = []\<rparr>
      | Inr status \<Rightarrow>
          (case findAction transitions ''Deployed'' (statusString status) of
             (Inl err, logged) \<Rightarrow> \<lparr>ret = Some err, inline = logged, spawned = []\<rparr>
           | (Inr action, logged) \<Rightarrow>
               (if Preview options then
                  \<lparr>ret = None, inline = logged @ snd (action client node options), spawned = []\<rparr>
                else
                  \<lparr>ret = None, inline = logged, spawned = [action client node options]\<rparr>)))"

section \<open>Filters\<close>

text \<open>
  A compiled \<open>*regexp.Regexp\<close> is used through \<open>MatchString\<close> only, and is modelled by
  that method. \<open>regexp.Compile\<close> is the parameter \<open>compile\<close>.
\<close>

type_synonym Regexp = "string \<Rightarrow> bool"

fun buildFilter :: "(string \<Rightarrow> error + Regexp) \<Rightarrow> string list \<Rightarrow> error + Regexp list" where
  "buildFilter compile [] = Inr []"
| "buildFilter compile (v # rest) =
     (case compile v of
        Inl err \<Rightarrow> Inl err
      | Inr r \<Rightarrow>
          (case buildFilter compile rest of
             Inl err \<Rightarrow> Inl err
           | Inr results \<Rightarrow> Inr (r # results)))"

fun matchedFilter :: "Regexp list \<Rightarrow> string \<Rightarrow> bool" where
  "matchedFilter [] target = False"
| "matchedFilter (e # rest) target = (if e target then True else matchedFilter rest target)"

section \<open>The batch processor\<close>

text \<open>
  The state of the loop of \<open>ProcessAll\<close>: the slice \<open>errors\<close>, and the events and
  goroutines so far.
\<close>

record batch =
  errors :: "error option list"
  trace :: "event list"
  tasks :: "task list"

text \<open>The two lines that verbose mode logs for a node that is passed over.\<close>

definition ignored_by_host :: "ProcessingOptions \<Rightarrow> MaasNode \<Rightarrow> event" where
  "ignored_by_host options node =
     Printf (''[info] ignoring node '' @ quoted (Hostname node)
               @ '' as it didn't match include hostname filter ''
               @ quoted (fmt_strings (Include (Hosts (Filter options)))))"

definition ignored_by_zone :: "ProcessingOptions \<Rightarrow> MaasNode \<Rightarrow> event" where
  "ignored_by_zone options node =
     Printf (''[info] ignoring node '' @ quoted (Hostname node)
               @ '' as its zone '' @ quoted (Zone node)
               @ '' didn't match include zone name filter ''
               @ quoted (fmt_strings (Include (Zones (Filter options)))))"

text \<open>The body of the loop, for the node at index \<open>i\<close>.\<close>

definition visit ::
  "table \<Rightarrow> (int \<Rightarrow> string) \<Rightarrow> client \<Rightarrow> ProcessingOptions \<Rightarrow> Regexp list \<Rightarrow> Regexp list
     \<Rightarrow> nat \<Rightarrow> MaasNode \<Rightarrow> batch \<Rightarrow> batch" where
  "visit transitions statusString client options includeHosts includeZones i node st =
     (if int (length includeHosts) \<ge> 0 \<and> matchedFilter includeHosts (Hostname node) then
        (if int (length includeZones) \<ge> 0 \<and> matchedFilter includeZones (Zone node) then
           (let d = ProcessNode transitions statusString client node options in
            case ret d of
              Some err \<Rightarrow>
                \<lparr>errors = (errors st)[i := Some err],
                 trace = trace st @ inline d, tasks = tasks st @ spawned d\<rparr>
            | None \<Rightarrow>
                \<lparr>errors = (errors st)[i := None],
                 trace = trace st @ inline d, tasks = tasks st @ spawned d\<rparr>)
         else
           (if Verbose options then st\<lparr>trace := trace st @ [ignored_by_zone options node]\<rparr>
            else st))
      else
        (if Verbose options then st\<lparr>trace := trace st @ [ignored_by_host options node]\<rparr>
         else st))"

fun range_nodes ::
  "(nat \<Rightarrow> MaasNode \<Rightarrow> batch \<Rightarrow> batch) \<Rightarrow> nat \<Rightarrow> MaasNode list \<Rightarrow> batch \<Rightarrow> batch" where
  "range_nodes body i [] st = st"
| "range_nodes body i (node # rest) st = range_nodes body (Suc i) rest (body i node st)"

text \<open>
  \<open>log.Fatalf\<close> ends the process: \<open>ProcessAll\<close> then returns nothing, and the model
  gives the message (\<open>Inl\<close>).
\<close>

definition ProcessAll ::
  "table \<Rightarrow> (int \<Rightarrow> string) \<Rightarrow> (string \<Rightarrow> error + Regexp) \<Rightarrow> client \<Rightarrow> MaasNode list
     \<Rightarrow> ProcessingOptions \<Rightarrow> string + batch" where
  "ProcessAll transitions statusString compile client nodes options =
     (case buildFilter compile (Include (Hosts (Filter options))) of
        Inl err \<Rightarrow>
          Inl (''[error] invalid regular expression for include filter ''
                 @ quoted (fmt_strings (Include (Hosts (Filter options))))
                 @ '' : '' @ Error err)
      | Inr includeHosts \<Rightarrow>
          (case buildFilter compile (Include (Zones (Filter options))) of
             Inl err \<Rightarrow>
               Inl (''[error] invalid regular expression for include filter ''
                      @ quoted (fmt_strings (Include (Zones (Filter options))))
                      @ '' : '' @ Error err)
           | Inr includeZones \<Rightarrow>
               Inr (range_nodes
                      (visit transitions statusString client options includeHosts includeZones)
                      0 nodes
                      \<lparr>errors = replicate (length nodes) None, trace = [], tasks = []\<rparr>)))"

section \<open>Reading a trace\<close>

text \<open>The calls to the service among the events of a run.\<close>

fun calls :: "event list \<Rightarrow> request list" where
  "calls [] = []"
| "calls (Printf line # rest) = calls rest"
| "calls (CallPost req # rest) = req # calls rest"

section \<open>Instances of the parameters\<close>

text \<open>
  Concrete values for what state.go takes from elsewhere, on which the definitions
  above can be evaluated. \<open>literal\<close> is \<open>regexp.Compile\<close> on patterns without
  metacharacters: such a pattern always compiles and matches the strings that contain it.
\<close>

fun starts_with :: "string \<Rightarrow> string \<Rightarrow> bool" where
  "starts_with [] s = True"
| "starts_with (p # ps) [] = False"
| "starts_with (p # ps) (c # cs) = (p = c \<and> starts_with ps cs)"

fun contains :: "string \<Rightarrow> string \<Rightarrow> bool" where
  "contains p [] = (p = [])"
| "contains p (c # cs) = (starts_with p (c # cs) \<or> contains p cs)"

definition literal :: "string \<Rightarrow> error + Regexp" where
  "literal p = Inr (contains p)"

definition status_names :: "int \<Rightarrow> string" where
  "status_names n =
     (if n = 0 then ''New'' else if n = 4 then ''Ready'' else if n = 6 then ''Deployed''
      else ''Unknown'')"

definition accepting :: client where
  "accepting req = None"

definition refusing :: client where
  "refusing req = Some (Foreign ''503 Service Unavailable'')"

definition web01 :: MaasNode where
  "web01 = \<lparr>Hostname = ''web-01'', Zone = ''us-east'', ID = ''node-1'', substatus = Inr 4\<rparr>"

definition db01 :: MaasNode where
  "db01 = \<lparr>Hostname = ''db-01'', Zone = ''us-west'', ID = ''node-2'', substatus = Inr 0\<rparr>"

definition unread :: MaasNode where
  "unread = \<lparr>Hostname = ''web-02'', Zone = ''us-east'', ID = ''node-3'',
             substatus = Inl (Foreign ''Requested integer, got <nil>.'')\<rparr>"

definition opts :: "string list \<Rightarrow> string list \<Rightarrow> bool \<Rightarrow> bool \<Rightarrow> ProcessingOptions" where
  "opts zones hosts verbose preview =
     \<lparr>Filter = \<lparr>Zones = \<lparr>Include = zones, Exclude = []\<rparr>,
                Hosts = \<lparr>Include = hosts, Exclude = []\<rparr>\<rparr>,
      Verbose = verbose, Preview = preview\<rparr>"

text \<open>
  A value of the variable \<open>Transitions\<close> other than the declared one: an action that logs
  and returns an error whatever the mode.
\<close>

definition Refuse :: Action where
  "Refuse client node options =
     (Some (Foreign ''refused''), [Printf (''REFUSE: '' @ Hostname node)])"

definition refusing_table :: table where
  "refusing_table = map_of [(''Deployed'', map_of [(''Ready'', Refuse)])]"

text \<open>The same options with other exclude lists.\<close>

definition with_excludes :: "string list \<Rightarrow> string list \<Rightarrow> ProcessingOptions \<Rightarrow> ProcessingOptions"
  where
  "with_excludes zones hosts options =
     options\<lparr>Filter :=
       \<lparr>Zones = \<lparr>Include = Include (Zones (Filter options)), Exclude = zones\<rparr>,
        Hosts = \<lparr>Include = Include (Hosts (Filter options)), Exclude = hosts\<rparr>\<rparr>\<rparr>"

section \<open>The transition table: lookups\<close>

lemma Deployed_row_lookup:
  "map_of Deployed_row ''Ready'' = Some Aquire"
  "map_of Deployed_row ''Allocated'' = Some Deploy"
  "map_of Deployed_row ''Retired'' = Some AdminState"
  "map_of Deployed_row ''Missing'' = Some Fail"
  "map_of Deployed_row ''Deployed'' = Some Done"
  "map_of Deployed_row ''New'' = Some Commission"
  "map_of Deployed_row ''FailedEraseDisk'' = None"
  by (simp_all add: Deployed_row_def)

lemma Transitions_Deployed: "Transitions ''Deployed'' = Some (map_of Deployed_row)"
  by (simp add: Transitions_def)

lemma Transitions_other: "target \<noteq> ''Deployed'' \<Longrightarrow> Transitions target = None"
  by (simp add: Transitions_def)

lemma Deployed_row_actions:
  "map_of Deployed_row current = Some action \<Longrightarrow>
     action \<in> {Commission, Done, Aquire, Deploy, AdminState, Wait, Fail}"
  by (drule map_of_SomeD) (auto simp: Deployed_row_def)


text \<open>
  C3. For every pair of a target and a current state that the table holds,
  \<open>findAction\<close> returns exactly the action stored there (and logs nothing); it is a
  function of the table and the two names, so calling it again gives the same action.
  For the declared table and the target \<open>Deployed\<close>: \<open>Ready\<close> gives \<open>Aquire\<close>,
  \<open>Allocated\<close> gives \<open>Deploy\<close>, \<open>Retired\<close> gives \<open>AdminState\<close>, \<open>Missing\<close> gives
  \<open>Fail\<close> and \<open>Deployed\<close> gives \<open>Done\<close>.
\<close>

theorem findAction_configured:
  "(transitions target = Some targets \<and> targets current = Some action
      \<longrightarrow> findAction transitions target current = (Inr action, []))
   \<and> findAction Transitions ''Deployed'' ''Ready'' = (Inr Aquire, [])
   \<and> findAction Transitions ''Deployed'' ''Allocated'' = (Inr Deploy, [])
   \<and> findAction Transitions ''Deployed'' ''Retired'' = (Inr AdminState, [])
   \<and> findAction Transitions ''Deployed'' ''Missing'' = (Inr Fail, [])
   \<and> findAction Transitions ''Deployed'' ''Deployed'' = (Inr Done, [])"
  by (simp add: findAction_def Transitions_Deployed Deployed_row_lookup)

theorem findAction_configured_witness:
  "Transitions ''Deployed'' = Some (map_of Deployed_row)
   \<and> map_of Deployed_row ''New'' = Some Commission
   \<and> findAction Transitions ''Deployed'' ''New'' = (Inr Commission, [])"
  using findAction_configured [of Transitions "''Deployed''" "map_of Deployed_row" "''New''" Commission]
  by (simp add: Transitions_Deployed Deployed_row_lookup)

text \<open>
  C4. A target that the table does not hold makes \<open>findAction\<close> fail with the
  unknown-target error, and a current state without an entry under a target that the
  table holds makes it fail with the unknown-transition error; the result is then the
  error (\<open>Inl\<close>) and no action. In the declared table every target other than
  \<open>Deployed\<close> is unknown.
\<close>

theorem findAction_unknown:
  "(transitions target = None
      \<longrightarrow> fst (findAction transitions target current) = Inl (UnknownTarget target))
   \<and> (transitions target = Some targets \<and> targets current = None
      \<longrightarrow> fst (findAction transitions target current) = Inl (UnknownTransition current target))
   \<and> (target \<noteq> ''Deployed''
      \<longrightarrow> fst (findAction Transitions target current) = Inl (UnknownTarget target))"
  by (simp add: findAction_def Transitions_other)

theorem findAction_unknown_witness:
  "Transitions ''Commissioned'' = None
   \<and> fst (findAction Transitions ''Commissioned'' ''New'') = Inl (UnknownTarget ''Commissioned'')
   \<and> Transitions ''Deployed'' = Some (map_of Deployed_row)
   \<and> map_of Deployed_row ''Rebooting'' = None
   \<and> fst (findAction Transitions ''Deployed'' ''Rebooting'')
       = Inl (UnknownTransition ''Rebooting'' ''Deployed'')
   \<and> ''Commissioned'' \<noteq> ''Deployed''"
  using findAction_unknown [of Transitions "''Commissioned''" "''New''" "map_of Deployed_row"]
        findAction_unknown [of Transitions "''Deployed''" "''Rebooting''" "map_of Deployed_row"]
  by (simp add: Transitions_def Deployed_row_def)

text \<open>
  C10. \<open>FailedEraseDisk\<close> is reached in the declared lifecycle graph (along
  \<open>New\<close>, \<open>Commissioning\<close>, \<open>Ready\<close>, \<open>Deploying\<close>, \<open>Deployed\<close>, \<open>Releasing\<close>,
  \<open>DiskErasing\<close>), the row of the target \<open>Deployed\<close> has no entry for it, and
  \<open>findAction\<close> for \<open>Deployed\<close> and \<open>FailedEraseDisk\<close> fails with the
  unknown-transition error, after logging its warning.
\<close>

theorem FailedEraseDisk_unresolved:
  "walk defaultStateMachine
     [''New'', ''Commissioning'', ''Ready'', ''Deploying'', ''Deployed'', ''Releasing'',
      ''DiskErasing'', ''FailedEraseDisk'']
   \<and> map_of Deployed_row ''FailedEraseDisk'' = None
   \<and> findAction Transitions ''Deployed'' ''FailedEraseDisk''
       = (Inl (UnknownTransition ''FailedEraseDisk'' ''Deployed''),
          [Printf (''[warn] unable to find transition from current state ''
                    @ quoted ''FailedEraseDisk'' @ '' to target state '' @ quoted ''Deployed'')])"
  by (simp add: findAction_def Transitions_Deployed Deployed_row_lookup defaultStateMachine_def)

section \<open>The actions: what they do\<close>

text \<open>
  C6. In preview mode \<open>Deploy\<close>, \<open>Aquire\<close> and \<open>Commission\<close> return \<open>nil\<close> after
  their log line and make no call to the service; \<open>Wait\<close>, \<open>Fail\<close>, \<open>AdminState\<close> and
  \<open>Done\<close> make no call in either mode; and every action logs the line that names it
  and the node's hostname, whatever the mode.
\<close>

theorem actions_effects:
  "(Preview options \<longrightarrow>
      Deploy client node options = (None, [Printf (''DEPLOY: '' @ Hostname node)])
    \<and> Aquire client node options = (None, [Printf (''AQUIRE: '' @ Hostname node)])
    \<and> Commission client node options = (None, [Printf (''COMISSION: '' @ Hostname node)]))
   \<and> Wait client node options = (None, [Printf (''WAIT: '' @ Hostname node)])
   \<and> Fail client node options = (None, [Printf (''FAIL: '' @ Hostname node)])
   \<and> AdminState client node options = (None, [Printf (''ADMIN: '' @ Hostname node)])
   \<and> Done client node options = (None, [Printf (''COMPLETE: '' @ Hostname node)])
   \<and> calls (snd (Wait client node options)) = []
   \<and> calls (snd (Fail client node options)) = []
   \<and> calls (snd (AdminState client node options)) = []
   \<and> calls (snd (Done client node options)) = []
   \<and> (Preview options \<longrightarrow>
        calls (snd (Deploy client node options)) = []
      \<and> calls (snd (Aquire client node options)) = []
      \<and> calls (snd (Commission client node options)) = [])
   \<and> Printf (''DEPLOY: '' @ Hostname node) \<in> set (snd (Deploy client node options))
   \<and> Printf (''AQUIRE: '' @ Hostname node) \<in> set (snd (Aquire client node options))
   \<and> Printf (''COMISSION: '' @ Hostname node) \<in> set (snd (Commission client node options))"
  by (simp add: Deploy_def Aquire_def Commission_def Wait_def Fail_def AdminState_def Done_def
      Let_def split: option.split)

theorem actions_effects_witness:
  "Preview (opts [] [] False True)
   \<and> Deploy refusing web01 (opts [] [] False True) = (None, [Printf ''DEPLOY: web-01''])
   \<and> Aquire refusing web01 (opts [] [] False True) = (None, [Printf ''AQUIRE: web-01''])
   \<and> Commission refusing web01 (opts [] [] False True) = (None, [Printf ''COMISSION: web-01''])
   \<and> calls (snd (Deploy refusing web01 (opts [] [] False True))) = []"
  using actions_effects [of "opts [] [] False True" refusing web01]
  by (simp add: opts_def web01_def)

section \<open>The dispatcher: what it returns\<close>


lemma shipped_action_options:
  assumes "map_of Deployed_row current = Some action" and "Preview o1 = Preview o2"
  shows "action client node o1 = action client node o2"
  using Deployed_row_actions [OF assms(1)] assms(2)
  by (auto simp: Deploy_def Aquire_def Commission_def Wait_def Fail_def AdminState_def Done_def)




text \<open>
  C8. Outside preview mode \<open>ProcessNode\<close> returns the error of the status read when
  the status cannot be read, the error of \<open>findAction\<close> when the resolution fails
  (nothing is started in either case), and otherwise starts the action as a goroutine
  and returns \<open>nil\<close> with none of the action's events behind it: what the action
  returns is never what \<open>ProcessNode\<close> returns.
\<close>

theorem ProcessNode_async:
  assumes "\<not> Preview options"
  shows "(substatus node = Inl err \<longrightarrow>
            ProcessNode transitions statusString client node options
              = \<lparr>ret = Some err, inline = [], spawned = []\<rparr>)
       \<and> (substatus node = Inr status
            \<and> fst (findAction transitions ''Deployed'' (statusString status)) = Inl err \<longrightarrow>
            ret (ProcessNode transitions statusString client node options) = Some err
            \<and> spawned (ProcessNode transitions statusString client node options) = [])
       \<and> (substatus node = Inr status
            \<and> fst (findAction transitions ''Deployed'' (statusString status)) = Inr action \<longrightarrow>
            ProcessNode transitions statusString client node options
              = \<lparr>ret = None, inline = [], spawned = [action client node options]\<rparr>)"
  using assms
  by (auto simp: ProcessNode_def findAction_def split: option.splits)

theorem ProcessNode_async_witness:
  "\<not> Preview (opts [] [] False False)
   \<and> substatus unread = Inl (Foreign ''Requested integer, got <nil>.'')
   \<and> ProcessNode refusing_table status_names refusing unread (opts [] [] False False)
       = \<lparr>ret = Some (Foreign ''Requested integer, got <nil>.''), inline = [], spawned = []\<rparr>
   \<and> substatus db01 = Inr 0
   \<and> fst (findAction refusing_table ''Deployed'' (status_names 0))
       = Inl (UnknownTransition ''New'' ''Deployed'')
   \<and> ret (ProcessNode refusing_table status_names refusing db01 (opts [] [] False False))
       = Some (UnknownTransition ''New'' ''Deployed'')
   \<and> substatus web01 = Inr 4
   \<and> fst (findAction refusing_table ''Deployed'' (status_names 4)) = Inr Refuse
   \<and> ProcessNode refusing_table status_names refusing web01 (opts [] [] False False)
       = \<lparr>ret = None, inline = [],
          spawned = [(Some (Foreign ''refused''), [Printf ''REFUSE: web-01''])]\<rparr>"
  using ProcessNode_async [of "opts [] [] False False" unread
          "Foreign ''Requested integer, got <nil>.''" refusing_table status_names refusing]
        ProcessNode_async [of "opts [] [] False False" db01
          "UnknownTransition ''New'' ''Deployed''" refusing_table status_names refusing 0]
        ProcessNode_async [of "opts [] [] False False" web01 _
          refusing_table status_names refusing 4 Refuse]
  by (simp add: opts_def unread_def db01_def web01_def status_names_def findAction_def
      refusing_table_def Refuse_def)

section \<open>The batch processor: slots and filters\<close>






lemma range_nodes_trace_only:
  assumes "\<And>i node st. body i node st = st\<lparr>trace := trace st @ said node\<rparr>"
  shows "range_nodes body i nodes st = st\<lparr>trace := trace st @ concat (map said nodes)\<rparr>"
  by (induction nodes arbitrary: i st) (simp_all add: assms)

lemma visit_no_zone:
  "visit transitions statusString client options includeHosts [] i node st
     = st\<lparr>trace := trace st @
          (if Verbose options
           then [if matchedFilter includeHosts (Hostname node) then ignored_by_zone options node
                 else ignored_by_host options node]
           else [])\<rparr>"
  by (simp add: visit_def)

lemma visit_no_host:
  "visit transitions statusString client options [] includeZones i node st
     = st\<lparr>trace := trace st @ (if Verbose options then [ignored_by_host options node] else [])\<rparr>"
  by (simp add: visit_def)

lemma concat_map_if:
  "concat (map (\<lambda>x. if c then [f x] else []) xs) = (if c then map f xs else [])"
  by (induction xs) simp_all

text \<open>
  C7. With an empty list of zone include patterns the compiled zone filter is empty
  and matches no zone, so every node is passed over: every slot is \<open>nil\<close>, no
  goroutine is started, and the only events are the lines of verbose mode about the
  nodes passed over (\<open>ProcessNode\<close> is not called).
\<close>

theorem empty_zone_filter:
  assumes "Include (Zones (Filter options)) = []"
      and "buildFilter compile (Include (Hosts (Filter options))) = Inr includeHosts"
  shows "buildFilter compile (Include (Zones (Filter options))) = Inr []
       \<and> \<not> matchedFilter [] zone
       \<and> ProcessAll transitions statusString compile client nodes options
           = Inr \<lparr>errors = replicate (length nodes) None,
                  trace = (if Verbose options
                           then map (\<lambda>node. if matchedFilter includeHosts (Hostname node)
                                            then ignored_by_zone options node
                                            else ignored_by_host options node) nodes
                           else []),
                  tasks = []\<rparr>"
  using assms
  by (simp add: ProcessAll_def range_nodes_trace_only [OF visit_no_zone] concat_map_if)

theorem empty_zone_filter_witness:
  "Include (Zones (Filter (opts [] [''web-''] True False))) = []
   \<and> buildFilter literal (Include (Hosts (Filter (opts [] [''web-''] True False))))
       = Inr [contains ''web-'']
   \<and> ProcessAll Transitions status_names literal accepting [web01, db01]
        (opts [] [''web-''] True False)
       = Inr \<lparr>errors = [None, None],
              trace = [ignored_by_zone (opts [] [''web-''] True False) web01,
                       ignored_by_host (opts [] [''web-''] True False) db01],
              tasks = []\<rparr>"
proof -
  let ?o = "opts [] [''web-''] True False"
  have z: "Include (Zones (Filter ?o)) = []"
    and h: "buildFilter literal (Include (Hosts (Filter ?o))) = Inr [contains ''web-'']"
    by (simp_all add: opts_def literal_def)
  have v: "Verbose ?o" by (simp add: opts_def)
  show ?thesis
    using empty_zone_filter [OF z h, of _ Transitions status_names accepting "[web01, db01]"] z h v
    by (simp add: web01_def db01_def)
qed

text \<open>
  The same holds for an empty list of host include patterns, although the comment in
  the loop says that an empty host filter always matches: \<open>len(includeHosts) >= 0\<close>
  is true and \<open>matchedFilter\<close> of the empty list is false.
\<close>

lemma empty_host_filter:
  assumes "Include (Hosts (Filter options)) = []"
      and "buildFilter compile (Include (Zones (Filter options))) = Inr includeZones"
  shows "ProcessAll transitions statusString compile client nodes options
           = Inr \<lparr>errors = replicate (length nodes) None,
                  trace = (if Verbose options then map (ignored_by_host options) nodes else []),
                  tasks = []\<rparr>"
  using assms
  by (simp add: ProcessAll_def range_nodes_trace_only [OF visit_no_host] concat_map_if)

text \<open>
  C1. The code at an empty host include list: the node \<open>web-01\<close> in the zone
  \<open>us-east\<close>, which the zone filter \<open>us-east\<close> accepts, is passed over by the host
  filter; its slot is \<open>nil\<close>, nothing is started, and verbose mode logs that the
  hostname did not match.
\<close>

theorem empty_host_filter_excludes:
  "buildFilter literal (Include (Hosts (Filter (opts [''us-east''] [] True False)))) = Inr []
   \<and> buildFilter literal (Include (Zones (Filter (opts [''us-east''] [] True False))))
       = Inr [contains ''us-east'']
   \<and> \<not> matchedFilter [] (Hostname web01)
   \<and> matchedFilter [contains ''us-east''] (Zone web01)
   \<and> ProcessAll Transitions status_names literal accepting [web01]
        (opts [''us-east''] [] True False)
       = Inr \<lparr>errors = [None],
              trace = [ignored_by_host (opts [''us-east''] [] True False) web01],
              tasks = []\<rparr>"
  by (simp add: ProcessAll_def opts_def literal_def web01_def visit_def)

lemma ProcessNode_shipped_options:
  assumes "Preview o1 = Preview o2"
  shows "ProcessNode Transitions statusString client node o1
           = ProcessNode Transitions statusString client node o2"
proof (cases "substatus node")
  case (Inl err)
  then show ?thesis by (simp add: ProcessNode_def)
next
  case (Inr status)
  show ?thesis
  proof (cases "map_of Deployed_row (statusString status)")
    case None
    with Inr show ?thesis
      by (simp add: ProcessNode_def findAction_def Transitions_Deployed)
  next
    case (Some action)
    from shipped_action_options [OF Some assms]
    have "action client node o1 = action client node o2" .
    with Inr Some assms show ?thesis
      by (simp add: ProcessNode_def findAction_def Transitions_Deployed)
  qed
qed

lemma visit_shipped_options:
  assumes "Include (Zones (Filter o1)) = Include (Zones (Filter o2))"
      and "Include (Hosts (Filter o1)) = Include (Hosts (Filter o2))"
      and "Verbose o1 = Verbose o2"
      and "Preview o1 = Preview o2"
  shows "visit Transitions statusString client o1 includeHosts includeZones
           = visit Transitions statusString client o2 includeHosts includeZones"
proof (intro ext)
  fix i node st
  have "ignored_by_host o1 node = ignored_by_host o2 node"
    and "ignored_by_zone o1 node = ignored_by_zone o2 node"
    using assms(1,2) by (simp_all add: ignored_by_host_def ignored_by_zone_def)
  then show "visit Transitions statusString client o1 includeHosts includeZones i node st
           = visit Transitions statusString client o2 includeHosts includeZones i node st"
    using assms(3) ProcessNode_shipped_options [OF assms(4), of statusString client node]
    by (simp add: visit_def)
qed

text \<open>
  C9. The exclude lists are never read: two values of the options with the same include
  lists and the same flags give, with the declared table, the same step of the loop for
  every node (hence the same decision to process it or pass it over) and the same
  result of \<open>ProcessAll\<close>, slots, events and goroutines alike.
\<close>

theorem excludes_never_consulted:
  assumes "Include (Zones (Filter o1)) = Include (Zones (Filter o2))"
      and "Include (Hosts (Filter o1)) = Include (Hosts (Filter o2))"
      and "Verbose o1 = Verbose o2"
      and "Preview o1 = Preview o2"
  shows "visit Transitions statusString client o1 includeHosts includeZones i node st
           = visit Transitions statusString client o2 includeHosts includeZones i node st
       \<and> ProcessAll Transitions statusString compile client nodes o1
           = ProcessAll Transitions statusString compile client nodes o2"
  unfolding ProcessAll_def assms(1) assms(2)
    visit_shipped_options [OF assms, of statusString client]
  by simp

theorem excludes_never_consulted_witness:
  "Include (Zones (Filter (opts [''us-''] [''web''] True False)))
     = Include (Zones (Filter (with_excludes [''us-east''] [''web-01'']
                                 (opts [''us-''] [''web''] True False))))
   \<and> Include (Hosts (Filter (opts [''us-''] [''web''] True False)))
     = Include (Hosts (Filter (with_excludes [''us-east''] [''web-01'']
                                 (opts [''us-''] [''web''] True False))))
   \<and> Verbose (opts [''us-''] [''web''] True False)
     = Verbose (with_excludes [''us-east''] [''web-01''] (opts [''us-''] [''web''] True False))
   \<and> Preview (opts [''us-''] [''web''] True False)
     = Preview (with_excludes [''us-east''] [''web-01''] (opts [''us-''] [''web''] True False))
   \<and> opts [''us-''] [''web''] True False
     \<noteq> with_excludes [''us-east''] [''web-01''] (opts [''us-''] [''web''] True False)
   \<and> ProcessAll Transitions status_names literal accepting [web01, db01, unread]
        (opts [''us-''] [''web''] True False)
     = ProcessAll Transitions status_names literal accepting [web01, db01, unread]
        (with_excludes [''us-east''] [''web-01''] (opts [''us-''] [''web''] True False))
   \<and> (\<exists>b. ProcessAll Transitions status_names literal accepting [web01, db01, unread]
        (with_excludes [''us-east''] [''web-01''] (opts [''us-''] [''web''] True False)) = Inr b
        \<and> tasks b = [(None, [Printf ''AQUIRE: web-01'',
                       CallPost \<lparr>path = [''nodes''], operation = ''acquire'',
                                 params = [(''name'', [''web-01''])]\<rparr>])])"
proof -
  let ?o1 = "opts [''us-''] [''web''] True False"
  let ?o2 = "with_excludes [''us-east''] [''web-01''] ?o1"
  have z: "Include (Zones (Filter ?o1)) = Include (Zones (Filter ?o2))"
    and h: "Include (Hosts (Filter ?o1)) = Include (Hosts (Filter ?o2))"
    and v: "Verbose ?o1 = Verbose ?o2"
    and p: "Preview ?o1 = Preview ?o2"
    and d: "?o1 \<noteq> ?o2"
    by (simp_all add: opts_def with_excludes_def)
  have run: "ProcessAll Transitions status_names literal accepting [web01, db01, unread] ?o1
      = ProcessAll Transitions status_names literal accepting [web01, db01, unread] ?o2"
    using excludes_never_consulted [OF z h v p] by blast
  have "\<exists>b. ProcessAll Transitions status_names literal accepting [web01, db01, unread] ?o1 = Inr b
        \<and> tasks b = [(None, [Printf ''AQUIRE: web-01'',
                       CallPost \<lparr>path = [''nodes''], operation = ''acquire'',
                                 params = [(''name'', [''web-01''])]\<rparr>])]"
    by (simp add: ProcessAll_def opts_def literal_def visit_def web01_def db01_def unread_def
        ProcessNode_def findAction_def Transitions_Deployed Deployed_row_lookup status_names_def
        Aquire_def accepting_def)
  with z h v p d run show ?thesis by simp
qed

end
